theory Spec2Isabelle
  imports Complex_Main "HOL-Library.Sublist"
begin

section \<open>Python values used by the analysis engine\<close>

text \<open>
  The engine is the class \<open>QECAnalysisEngine\<close> of \<open>backend/qec-ai-service/main.py\<close>.
  Python floats are idealised as \<^typ>\<open>real\<close>, Python strings as \<^typ>\<open>string\<close>
  (the two non-ASCII marks of the artifact bodies are given by their UTF-8 bytes),
  exceptions are values of \<open>py_exception\<close> returned on the left of a sum.
\<close>

datatype py_exception =
    ZeroDivisionError
  | KeyError
  | IndexError
  | TypeError
  | ClientError
  | JSONDecodeError
  | ApiError nat
  | HTTPException nat string

text \<open>
  \<open>ClientError\<close> stands for any exception of the HTTP client while posting,
  \<open>JSONDecodeError\<close> for any exception of \<open>resp.json()\<close>, \<open>ApiError n\<close> for the
  \<open>Exception(f"API error: {resp.status}")\<close> of the source.
\<close>

definition nl :: string where
  "nl = [CHR 0x0A]"

definition bsl :: string where
  "bsl = [CHR 0x5C]"

fun join_nl :: "string list \<Rightarrow> string" where
  "join_nl [] = []"
| "join_nl [l] = l"
| "join_nl (l # ls) = l @ nl @ join_nl ls"

text \<open>\<open>truthy\<close> is Python's truth value of an optional string (\<open>os.getenv\<close>).\<close>

fun truthy :: "string option \<Rightarrow> bool" where
  "truthy None = False"
| "truthy (Some s) = (s \<noteq> [])"

text \<open>\<open>sum(...)\<close> starts from 0 and adds from the left.\<close>

definition py_sum :: "real list \<Rightarrow> real" where
  "py_sum xs = foldl (+) 0 xs"

text \<open>True division by a length; dividing by 0 raises.\<close>

definition py_truediv :: "real \<Rightarrow> nat \<Rightarrow> py_exception + real" where
  "py_truediv x n = (if n = 0 then Inl ZeroDivisionError else Inr (x / real n))"

text \<open>\<open>str(n)\<close> of an integer, in decimal.\<close>

fun digit_char :: "nat \<Rightarrow> char" where
  "digit_char n = char_of (48 + n)"

fun str_nat :: "nat \<Rightarrow> string" where
  "str_nat n = (if n < 10 then [digit_char n] else str_nat (n div 10) @ [digit_char (n mod 10)])"

declare str_nat.simps [simp del]

definition str_int :: "int \<Rightarrow> string" where
  "str_int i = (if i < 0 then ''-'' @ str_nat (nat (- i)) else str_nat (nat i))"

text \<open>\<open>f"{n:04d}"\<close> for a non-negative \<open>n\<close>: at least four digits, padded with zeros.\<close>

definition fmt_04d :: "nat \<Rightarrow> string" where
  "fmt_04d n = (let s = str_nat n in replicate (4 - length s) (CHR ''0'') @ s)"

section \<open>Stabilizer checks\<close>

record stabilizer_result =
  name :: string
  outcome :: int
  confidence :: real
  weight :: real
  description :: string

definition stabilizers :: "(string \<times> real) list" where
  "stabilizers =
     [(''syntax_validation'', 0.8),
      (''semantic_consistency'', 1.0),
      (''security_analysis'', 0.9),
      (''performance_check'', 0.7),
      (''compliance_audit'', 0.95)]"

text \<open>\<open>s.replace('_', ' ')\<close>.\<close>

definition replace_underscore :: "string \<Rightarrow> string" where
  "replace_underscore s = map (\<lambda>c. if c = CHR ''_'' then CHR '' '' else c) s"

text \<open>\<open>random.uniform(a, b)\<close> is \<open>a + (b - a) * random.random()\<close>.\<close>

definition uniform :: "real \<Rightarrow> real \<Rightarrow> real \<Rightarrow> real" where
  "uniform a b u = a + (b - a) * u"

text \<open>
  The random source is a sequence \<open>rnd\<close> of draws of \<open>random.random()\<close> and the
  position \<open>k\<close> of the next draw; each stabilizer takes two draws.
\<close>

fun stabilizer_loop :: "(nat \<Rightarrow> real) \<Rightarrow> nat \<Rightarrow> (string \<times> real) list \<Rightarrow> stabilizer_result list" where
  "stabilizer_loop rnd k [] = []"
| "stabilizer_loop rnd k ((n, w) # rest) =
     (let success_probability = 0.8;
          oc = (if rnd k < success_probability then 1 else - 1);
          cf = (if oc = 1 then uniform 0.7 0.95 (rnd (k + 1)) else uniform 0.3 0.6 (rnd (k + 1)))
      in \<lparr> name = n, outcome = oc, confidence = cf, weight = w,
           description = ''Enhanced '' @ replace_underscore n @ '' check'' \<rparr>
         # stabilizer_loop rnd (k + 2) rest)"

definition run_stabilizer_checks :: "(nat \<Rightarrow> real) \<Rightarrow> stabilizer_result list" where
  "run_stabilizer_checks rnd = stabilizer_loop rnd 0 stabilizers"

section \<open>Coherence aggregation\<close>

text \<open>
  Lines 135-136 of \<open>_run_qec_analysis\<close>:
  \<open>sum(result['outcome'] * result['confidence'] for result in stabilizer_results) / len(stabilizer_results)\<close>.
\<close>

definition coherence_score_of :: "stabilizer_result list \<Rightarrow> py_exception + real" where
  "coherence_score_of stabilizer_results =
     py_truediv (py_sum (map (\<lambda>result. of_int (outcome result) * confidence result) stabilizer_results))
                (length stabilizer_results)"

section \<open>Metrics\<close>

text \<open>
  The process-wide Prometheus objects: labelled counters as functions from the label
  values to a count, the histogram as the list of its observations, the labelled gauge
  as a partial map, the in-flight gauge as an integer.
\<close>

record metrics =
  analysis_requests_total :: "string \<times> string \<Rightarrow> nat"
  analysis_duration :: "real list"
  ai_provider_requests :: "string \<times> string \<Rightarrow> nat"
  coherence_score_gauge :: "string \<rightharpoonup> real"
  active_analyses :: int

definition inc :: "('l \<Rightarrow> nat) \<Rightarrow> 'l \<Rightarrow> ('l \<Rightarrow> nat)" where
  "inc c l = c(l := Suc (c l))"

definition inc_provider :: "string \<Rightarrow> metrics \<Rightarrow> metrics" where
  "inc_provider st m = m\<lparr> ai_provider_requests := inc (ai_provider_requests m) (''nvidia'', st) \<rparr>"

section \<open>The provider's replies\<close>

datatype json =
    JNull
  | JBool bool
  | JNum real
  | JStr string
  | JArr "json list"
  | JObj "(string \<times> json) list"

text \<open>
  \<open>v[key]\<close> with a string key: a decoded object keeps the last of duplicate keys;
  every other value raises.
\<close>

fun subscript_key :: "json \<Rightarrow> string \<Rightarrow> py_exception + json" where
  "subscript_key (JObj kvs) k = (case map_of (rev kvs) k of None \<Rightarrow> Inl KeyError | Some v \<Rightarrow> Inr v)"
| "subscript_key _ k = Inl TypeError"

text \<open>
  \<open>v[0]\<close>: the first element of a list, the first character of a string; an object
  has string keys only, so \<open>0\<close> is a missing key.
\<close>

fun subscript_zero :: "json \<Rightarrow> py_exception + json" where
  "subscript_zero (JArr []) = Inl IndexError"
| "subscript_zero (JArr (x # xs)) = Inr x"
| "subscript_zero (JStr []) = Inl IndexError"
| "subscript_zero (JStr (c # cs)) = Inr (JStr [c])"
| "subscript_zero (JObj kvs) = Inl KeyError"
| "subscript_zero _ = Inl TypeError"

text \<open>\<open>data['choices'][0]['message']['content']\<close>.\<close>

fun then_do :: "'e + 'a \<Rightarrow> ('a \<Rightarrow> 'e + 'b) \<Rightarrow> 'e + 'b" where
  "then_do (Inl e) f = Inl e"
| "then_do (Inr a) f = f a"

definition extract_content :: "json \<Rightarrow> py_exception + json" where
  "extract_content data =
     then_do (subscript_key data ''choices'') (\<lambda>a.
     then_do (subscript_zero a) (\<lambda>b.
     then_do (subscript_key b ''message'') (\<lambda>c.
     subscript_key c ''content'')))"

text \<open>
  What one \<open>session.post\<close> gives: an exception of the client, or a response with its
  status and its body as \<open>resp.json()\<close> decodes it (\<open>None\<close> when decoding raises).
  The network answers each prompt; \<open>session_opens\<close> tells whether
  \<open>aiohttp.ClientSession()\<close> can be entered.
\<close>

datatype provider_reply = Post_raises | Response nat "json option"

record network =
  session_opens :: bool
  post :: "string \<Rightarrow> provider_reply"

text \<open>The body of the inner \<open>try\<close> for one prompt, up to the content it extracts.\<close>

definition provider_call :: "network \<Rightarrow> string \<Rightarrow> py_exception + json" where
  "provider_call net prompt =
     (case post net prompt of
        Post_raises \<Rightarrow> Inl ClientError
      | Response st body \<Rightarrow>
          if st = 200 then
            (case body of None \<Rightarrow> Inl JSONDecodeError | Some data \<Rightarrow> extract_content data)
          else Inl (ApiError st))"

section \<open>Template library\<close>

text \<open>\<open>lsu[:100]\<close> is \<open>take 100 lsu\<close>.\<close>

definition policy_rego_template :: "string \<Rightarrow> string" where
  \<open>policy_rego_template lsu = join_nl
     [''package governance'',
      '''',
      ''# Generated from LSU: "'' @ take 100 lsu @ ''..."'',
      '''',
      ''default allow = false'',
      '''',
      ''allow {'',
      ''    input.action == "read"'',
      ''    input.resource.type == "document"'',
      ''    validate_semantic_rule(input.context)'',
      ''}'',
      '''',
      ''validate_semantic_rule(context) {'',
      ''    context.safety_level >= 3'',
      ''    not context.high_risk_indicators[_]'',
      ''}'']\<close>

definition specification_tla_template :: "string \<Rightarrow> string" where
  \<open>specification_tla_template lsu = join_nl
     [''---- MODULE GovernanceSpec ----'',
      ''EXTENDS Naturals, Sequences'',
      '''',
      bsl @ ''* Generated from LSU: "'' @ take 100 lsu @ ''..."'',
      '''',
      ''VARIABLES state, safety_level, compliance_status'',
      '''',
      ''Init == '',
      ''    /'' @ bsl @ '' state = "initial"'',
      ''    /'' @ bsl @ '' safety_level = 0'',
      ''    /'' @ bsl @ '' compliance_status = "pending"'',
      '''',
      ''Next == '',
      ''    '' @ bsl @ ''/  /'' @ bsl @ '' state = "initial"'',
      ''         /'' @ bsl @ '' safety_level' = 3'',
      ''         /'' @ bsl @ '' compliance_status' = "validated" '',
      ''         /'' @ bsl @ '' state' = "compliant"'',
      ''    '' @ bsl @ ''/  UNCHANGED <<state, safety_level, compliance_status>>'',
      '''',
      ''Spec == Init /'' @ bsl @ '' [][Next]_<<state, safety_level, compliance_status>>'',
      ''===='']\<close>

definition test_suite_py_template :: "string \<Rightarrow> string" where
  \<open>test_suite_py_template lsu = join_nl
     [''"""'',
      ''Test suite for governance requirement: '' @ take 100 lsu @ ''...'',
      ''"""'',
      ''import pytest'',
      '''',
      ''def test_governance_validation():'',
      ''    context = {"safety_level": 4, "high_risk_indicators": []}'',
      ''    assert validate_semantic_rule(context) == True'',
      '''',
      ''def test_safety_threshold():'',
      ''    context = {"safety_level": 2, "high_risk_indicators": []}'',
      ''    assert validate_semantic_rule(context) == False'',
      '''',
      ''def validate_semantic_rule(context):'',
      ''    return context.get("safety_level", 0) >= 3 and len(context.get("high_risk_indicators", [])) == 0'']\<close>

definition documentation_md_template :: "string \<Rightarrow> string" where
  \<open>documentation_md_template lsu = join_nl
     [''# Governance Policy Documentation'',
      '''',
      ''## Requirement'',
      lsu,
      '''',
      ''## Implementation'',
      ''This policy has been generated using the QEC-SFT platform with enhanced semantic analysis.'',
      '''',
      ''## Validation'',
      ''- Syntax validation: PASSED'',
      ''- Semantic consistency: VERIFIED'',
      ''- Security analysis: COMPLETED'',
      ''- Performance check: ACCEPTABLE'',
      ''- Compliance audit: APPROVED'',
      '''']\<close>

text \<open>The dictionary \<open>templates\<close> of \<open>_get_template_content\<close>, in its order.\<close>

definition templates :: "string \<Rightarrow> (string \<times> string) list" where
  "templates lsu =
     [(''policy.rego'', policy_rego_template lsu),
      (''specification.tla'', specification_tla_template lsu),
      (''test_suite.py'', test_suite_py_template lsu),
      (''documentation.md'', documentation_md_template lsu)]"

definition get_template_content :: "string \<Rightarrow> string \<Rightarrow> string" where
  "get_template_content filename lsu =
     (case map_of (templates lsu) filename of
        Some t \<Rightarrow> t
      | None \<Rightarrow> ''# Generated content for '' @ filename @ nl @ ''# LSU: '' @ lsu)"

section \<open>Representation generation\<close>

text \<open>
  A representation set is the dictionary returned, in insertion order. Its values are
  what the code stores: the template text, or whatever value the provider's reply holds
  at the content field.
\<close>

type_synonym representations = "(string \<times> json) list"

text \<open>\<open>d[k] = v\<close> on an insertion-ordered dictionary.\<close>

fun dict_set :: "('k \<times> 'v) list \<Rightarrow> 'k \<Rightarrow> 'v \<Rightarrow> ('k \<times> 'v) list" where
  "dict_set [] k v = [(k, v)]"
| "dict_set ((k', v') # d) k v = (if k' = k then (k, v) # d else (k', v') # dict_set d k v)"

definition prompts :: "string \<Rightarrow> (string \<times> string) list" where
  "prompts lsu =
     [(''policy.rego'', ''Generate a complete Rego policy for: '' @ lsu),
      (''specification.tla'', ''Create a TLA+ specification for: '' @ lsu),
      (''test_suite.py'', ''Write comprehensive Python tests for: '' @ lsu),
      (''documentation.md'', ''Create documentation for: '' @ lsu)]"

text \<open>The \<open>for filename, prompt in prompts.items()\<close> loop with its inner \<open>try\<close>.\<close>

fun ai_loop :: "network \<Rightarrow> string \<Rightarrow> (string \<times> string) list \<Rightarrow> representations \<Rightarrow> metrics
    \<Rightarrow> representations \<times> metrics" where
  "ai_loop net lsu [] reps m = (reps, m)"
| "ai_loop net lsu ((filename, prompt) # rest) reps m =
     (case provider_call net prompt of
        Inr content \<Rightarrow>
          ai_loop net lsu rest (dict_set reps filename content) (inc_provider ''success'' m)
      | Inl e \<Rightarrow>
          ai_loop net lsu rest (dict_set reps filename (JStr (get_template_content filename lsu)))
            (inc_provider ''error'' m))"

definition ai_generate_representations :: "network \<Rightarrow> string \<Rightarrow> metrics
    \<Rightarrow> (py_exception + representations) \<times> metrics" where
  "ai_generate_representations net lsu m =
     (let m1 = inc_provider ''attempt'' m in
      if session_opens net then
        (let (reps, m2) = ai_loop net lsu (prompts lsu) [] m1 in (Inr reps, m2))
      else (Inl ClientError, m1))"

definition template_generate_representations :: "string \<Rightarrow> representations" where
  "template_generate_representations lsu =
     [(''policy.rego'', JStr (get_template_content ''policy.rego'' lsu)),
      (''specification.tla'', JStr (get_template_content ''specification.tla'' lsu)),
      (''test_suite.py'', JStr (get_template_content ''test_suite.py'' lsu)),
      (''documentation.md'', JStr (get_template_content ''documentation.md'' lsu))]"

text \<open>The engine's configuration, read from the environment by \<open>__init__\<close>.\<close>

record engine =
  nvidia_api_key :: "string option"
  groq_api_key :: "string option"
  opa_endpoint :: string

definition generate_representations :: "engine \<Rightarrow> network \<Rightarrow> string \<Rightarrow> metrics
    \<Rightarrow> representations \<times> metrics" where
  "generate_representations self net lsu m =
     (if truthy (nvidia_api_key self) then
        (case ai_generate_representations net lsu m of
           (Inr reps, m') \<Rightarrow> (reps, m')
         | (Inl e, m') \<Rightarrow> (template_generate_representations lsu, m'))
      else (template_generate_representations lsu, m))"

section \<open>Certificate synthesis\<close>

text \<open>
  What the run reads from outside: the clock, the hash of the LSU, the random source,
  and the rendering \<open>f"{x:.2f}"\<close> of a float, taken as it is. \<open>utcnow n\<close> is the text of
  the \<open>n\<close>-th \<open>datetime.utcnow().isoformat()\<close> of a request.
\<close>

record world =
  time_now :: int
  hash_lsu :: int
  elapsed_ms :: int
  elapsed_seconds :: real
  utcnow :: "nat \<Rightarrow> string"
  rnd :: "nat \<Rightarrow> real"
  format_2f :: "real \<Rightarrow> string"

record risk_assessment =
  severity :: string
  impact_analysis :: string
  mitigation_strategy :: string

record certificate =
  diagnosis_id :: string
  lsu_id :: string
  status :: string
  certified_at :: string
  syndrome_vector :: "int list"
  sde_version :: string
  coherence_score :: real
  risk_assessment :: risk_assessment

record payload_metadata =
  creation_timestamp :: string
  processing_duration_ms :: int
  version :: string
  ai_mode :: string

record analysis_payload =
  artifact_id :: string
  artifact_type :: string
  artifact_body :: string
  payload_lsu_id :: string
  representations :: representations
  payload_metadata :: payload_metadata

record signature =
  key_id :: string
  algorithm :: string
  signature_value :: string
  signature_timestamp :: string

record analysis_result =
  payload :: analysis_payload
  certificate_of_semantic_integrity :: certificate
  signature :: signature
  ai_provider_used :: string

definition check_mark :: string where
  "check_mark = [CHR 0xE2, CHR 0x9C, CHR 0x85]"

definition cross_mark :: string where
  "cross_mark = [CHR 0xE2, CHR 0x9D, CHR 0x8C]"

definition generate_artifact_body :: "string \<Rightarrow> string \<Rightarrow> string" where
  "generate_artifact_body lsu st =
     (if st = ''COHERENT'' then join_nl
        [''# QEC-SFT Validated Governance Policy'',
         '''',
         ''## Requirement'',
         lsu,
         '''',
         ''## Status'',
         check_mark @ '' COHERENT - Semantic integrity validated'',
         '''',
         ''## Implementation'',
         ''This policy has passed all QEC-SFT stabilizer checks and is ready for deployment.'',
         '''',
         ''Generated by ACGS-PGP QEC-SFT Platform v8.2.0-production'',
         '''']
      else join_nl
        [''# QEC-SFT Safety Protocol'',
         '''',
         ''## Requirement'',
         lsu,
         '''',
         ''## Status  '',
         cross_mark @ '' INCOHERENT - Manual review required'',
         '''',
         ''## Action Required'',
         ''This requirement failed semantic validation and requires expert review before implementation.'',
         '''',
         ''Generated by ACGS-PGP QEC-SFT Platform v8.2.0-production'',
         ''''])"

definition detect_ai_provider :: "engine \<Rightarrow> string" where
  "detect_ai_provider self =
     (if truthy (nvidia_api_key self) then ''nvidia-enhanced''
      else if truthy (groq_api_key self) then ''groq-enhanced''
      else ''simulation'')"

text \<open>The dictionary \<open>certificate\<close> of \<open>_run_qec_analysis\<close> (step 4).\<close>

definition make_certificate :: "world \<Rightarrow> string \<Rightarrow> stabilizer_result list \<Rightarrow> real \<Rightarrow> certificate" where
  "make_certificate w analysis_id stabilizer_results score =
     \<lparr> diagnosis_id = ''diag-'' @ analysis_id,
       lsu_id = analysis_id,
       status = (if score > 0 then ''COHERENT'' else ''INCOHERENT''),
       certified_at = utcnow w 0 @ ''Z'',
       syndrome_vector = map outcome stabilizer_results,
       sde_version = ''v8.2.0-production'',
       coherence_score = score,
       risk_assessment =
         \<lparr> severity = (if score > 0.7 then ''LOW'' else if score < 0.3 then ''HIGH'' else ''MEDIUM''),
           impact_analysis = ''Coherence score: '' @ format_2f w score,
           mitigation_strategy =
             (if score > 0.7 then ''Standard monitoring procedures'' else ''Manual review required'') \<rparr> \<rparr>"

text \<open>
  Steps 3 and 4 of \<open>_run_qec_analysis\<close> and the dictionary it returns, as a function of
  its local variables \<open>representations\<close> and \<open>stabilizer_results\<close>. The source computes
  them inline; \<open>run_qec_analysis\<close> below applies them to the five results of
  \<open>run_stabilizer_checks\<close>, as the source does.
\<close>

definition synthesize :: "engine \<Rightarrow> world \<Rightarrow> string \<Rightarrow> string \<Rightarrow> representations
    \<Rightarrow> stabilizer_result list \<Rightarrow> py_exception + analysis_result" where
  "synthesize self w lsu analysis_id reps stabilizer_results =
     then_do (coherence_score_of stabilizer_results) (\<lambda>score.
       let cert = make_certificate w analysis_id stabilizer_results score in
       Inr \<lparr> payload =
               \<lparr> artifact_id = ''artifact-'' @ analysis_id,
                 artifact_type = (if status cert = ''COHERENT'' then ''rego_policy'' else ''safety_protocol''),
                 artifact_body = generate_artifact_body lsu (status cert),
                 payload_lsu_id = analysis_id,
                 representations = reps,
                 payload_metadata =
                   \<lparr> creation_timestamp = utcnow w 1 @ ''Z'',
                     processing_duration_ms = 0,
                     version = ''v8.2.0-production'',
                     ai_mode = ''enhanced-analysis'' \<rparr> \<rparr>,
             certificate_of_semantic_integrity = cert,
             signature =
               \<lparr> key_id = ''acgs-pgp-enhanced-key'',
                 algorithm = ''ECDSA-SHA256'',
                 signature_value = ''sig-'' @ analysis_id,
                 signature_timestamp = utcnow w 2 @ ''Z'' \<rparr>,
             ai_provider_used = detect_ai_provider self \<rparr>)"

definition run_qec_analysis :: "engine \<Rightarrow> world \<Rightarrow> network \<Rightarrow> string \<Rightarrow> string \<Rightarrow> metrics
    \<Rightarrow> (py_exception + analysis_result) \<times> metrics" where
  "run_qec_analysis self w net lsu analysis_id m =
     (let (reps, m') = generate_representations self net lsu m;
          stabilizer_results = run_stabilizer_checks (rnd w)
      in (synthesize self w lsu analysis_id reps stabilizer_results, m'))"

section \<open>Policy generation\<close>

definition generate_opa_policy :: "world \<Rightarrow> analysis_result \<Rightarrow> string \<Rightarrow> string" where
  \<open>generate_opa_policy w qr atype =
     (let cert = certificate_of_semantic_integrity qr;
          score = coherence_score cert
      in join_nl
        [''# Generated OPA Policy from QEC-SFT Analysis'',
         ''# Analysis ID: '' @ diagnosis_id cert,
         ''# Coherence Score: '' @ format_2f w score,
         ''# Status: '' @ status cert,
         '''',
         ''package acgs.qec.'' @ atype,
         '''',
         ''import future.keywords.if'',
         ''import future.keywords.in'',
         '''',
         ''default allow = false'',
         '''',
         ''# Main authorization rule based on QEC analysis'',
         ''allow if {'',
         ''    qec_coherence_validated'',
         ''    security_requirements_met'',
         ''    '' @ atype @ ''_specific_checks'',
         ''}'',
         '''',
         ''# QEC coherence validation'',
         ''qec_coherence_validated if {'',
         ''    input.qec_analysis.status == "COHERENT"'',
         ''    input.qec_analysis.coherence_score >= 0.7'',
         ''}'',
         '''',
         ''# Security requirements'',
         ''security_requirements_met if {'',
         ''    count(input.security_violations) == 0'',
         ''    input.user.authenticated == true'',
         ''    input.user.role in ["authorized_user", "admin"]'',
         ''}'',
         '''',
         ''# Analysis-specific checks'',
         atype @ ''_specific_checks if {'',
         ''    input.validation_passed == true'',
         ''    input.compliance_verified == true'',
         ''}'',
         '''',
         ''# Violation tracking'',
         ''violations[msg] {'',
         ''    input.qec_analysis.status == "INCOHERENT"'',
         ''    msg := "QEC analysis failed coherence validation"'',
         ''}'',
         '''',
         ''violations[msg] {'',
         ''    input.qec_analysis.coherence_score < 0.7'',
         ''    msg := sprintf("Coherence score %.2f below threshold", [input.qec_analysis.coherence_score])'',
         ''}'',
         ''''])\<close>

section \<open>Compliance and recommendations\<close>

definition assess_compliance :: "analysis_result \<Rightarrow> string" where
  "assess_compliance qr =
     (let cert = certificate_of_semantic_integrity qr;
          score = coherence_score cert
      in if status cert = ''COHERENT'' \<and> score \<ge> 0.8 then ''COMPLIANT''
         else if status cert = ''INCOHERENT'' \<or> score < 0.5 then ''NON_COMPLIANT''
         else ''REVIEW_REQUIRED'')"

definition generate_recommendations :: "analysis_result \<Rightarrow> string \<Rightarrow> string list" where
  "generate_recommendations qr atype =
     (let cert = certificate_of_semantic_integrity qr;
          base =
            (if status cert = ''COHERENT'' then
               [''Policy validation successful - ready for deployment'',
                ''Monitor performance in production environment'',
                ''Schedule regular compliance reviews'']
             else
               [''Address semantic coherence issues before deployment'',
                ''Review failed stabilizer checks'',
                ''Consider manual expert review''])
      in if atype = ''security'' then base @ [''Conduct additional security penetration testing'']
         else if atype = ''compliance'' then base @ [''Update compliance documentation'']
         else base)"

section \<open>Requests, responses and the audit entry\<close>

record QECAnalysisRequest =
  req_lsu :: string
  req_analysis_type :: string
  req_ai_provider_preference :: "string option"
  req_integration_mode :: string
  req_metadata :: "(string \<times> json) list option"

record QECAnalysisResponse =
  analysis_id :: string
  timestamp :: string
  lsu_input :: string
  qec_result :: analysis_result
  opa_policy :: "string option"
  compliance_status :: string
  audit_trail_id :: string
  recommendations :: "string list"
  processing_time_ms :: int
  response_ai_provider_used :: string
  confidence_score :: real

record audit_metadata =
  lsu_preview :: string
  ai_provider :: string
  metadata_coherence_score :: real

record audit_entry =
  decision_id :: string
  audit_timestamp :: string
  policy_path :: string
  model_name :: string
  decision :: string
  violations :: "string list"
  enhanced :: bool
  ai_confidence :: real
  audit_processing_time_ms :: int
  audit_compliance_status :: string
  audit_metadata :: audit_metadata

text \<open>The dictionary \<open>audit_entry\<close> that \<open>_record_audit_entry\<close> builds and logs.\<close>

definition record_audit_entry :: "QECAnalysisResponse \<Rightarrow> audit_entry" where
  "record_audit_entry response =
     \<lparr> decision_id = analysis_id response,
       audit_timestamp = timestamp response,
       policy_path = ''acgs.qec.analysis'',
       model_name = ''qec-sft-enhanced'',
       decision = (if compliance_status response = ''COMPLIANT'' then ''ALLOW'' else ''DENY''),
       violations =
         (if compliance_status response = ''COMPLIANT'' then []
          else [''QEC: '' @ compliance_status response]),
       enhanced = True,
       ai_confidence = confidence_score response,
       audit_processing_time_ms = processing_time_ms response,
       audit_compliance_status = compliance_status response,
       audit_metadata =
         \<lparr> lsu_preview = take 100 (lsu_input response) @ ''...'',
           ai_provider = response_ai_provider_used response,
           metadata_coherence_score = confidence_score response \<rparr> \<rparr>"

section \<open>The orchestrator\<close>

text \<open>\<open>str(e)\<close> of an exception.\<close>

fun str_exception :: "py_exception \<Rightarrow> string" where
  "str_exception ZeroDivisionError = ''division by zero''"
| "str_exception (ApiError n) = ''API error: '' @ str_nat n"
| "str_exception (HTTPException n detail) = detail"
| "str_exception _ = []"

text \<open>
  Of these only \<open>ZeroDivisionError\<close> can reach the handler of
  \<open>analyze_governance_requirement\<close>; the others are caught where they are raised.
\<close>

definition make_analysis_id :: "world \<Rightarrow> string" where
  "make_analysis_id w = ''qec-'' @ str_int (time_now w) @ ''-'' @ fmt_04d (nat (hash_lsu w mod 10000))"

definition inc_requests :: "string \<Rightarrow> string \<Rightarrow> metrics \<Rightarrow> metrics" where
  "inc_requests atype st m =
     m\<lparr> analysis_requests_total := inc (analysis_requests_total m) (atype, st) \<rparr>"

text \<open>
  The body of the \<open>try\<close>: on success the response, the audit entry built from it, and
  the metrics after it.
\<close>

definition analysis_body :: "engine \<Rightarrow> world \<Rightarrow> network \<Rightarrow> QECAnalysisRequest \<Rightarrow> string \<Rightarrow> metrics
    \<Rightarrow> (py_exception + QECAnalysisResponse \<times> audit_entry) \<times> metrics" where
  "analysis_body self w net request aid m =
     (case run_qec_analysis self w net (req_lsu request) aid m of
        (Inl e, m1) \<Rightarrow> (Inl e, m1)
      | (Inr qr, m1) \<Rightarrow>
          (let policy =
                 (if req_integration_mode request = ''opa''
                  then Some (generate_opa_policy w qr (req_analysis_type request)) else None);
               cs = assess_compliance qr;
               recs = generate_recommendations qr (req_analysis_type request);
               score = coherence_score (certificate_of_semantic_integrity qr);
               m2 = m1\<lparr> coherence_score_gauge := (coherence_score_gauge m1)(aid \<mapsto> score) \<rparr>;
               response =
                 \<lparr> analysis_id = aid,
                   timestamp = utcnow w 3 @ ''Z'',
                   lsu_input = req_lsu request,
                   qec_result = qr,
                   opa_policy = policy,
                   compliance_status = cs,
                   audit_trail_id = ''audit-'' @ aid,
                   recommendations = recs,
                   processing_time_ms = elapsed_ms w,
                   response_ai_provider_used = ai_provider_used qr,
                   confidence_score = score \<rparr>;
               entry = record_audit_entry response;
               m3 = inc_requests (req_analysis_type request) ''success'' m2
           in (Inr (response, entry), m3)))"

definition analyze_governance_requirement :: "engine \<Rightarrow> world \<Rightarrow> network \<Rightarrow> QECAnalysisRequest
    \<Rightarrow> metrics \<Rightarrow> (py_exception + QECAnalysisResponse \<times> audit_entry) \<times> metrics" where
  "analyze_governance_requirement self w net request m =
     (let aid = make_analysis_id w;
          m0 = m\<lparr> active_analyses := active_analyses m + 1 \<rparr>;
          (r, m1) =
            (case analysis_body self w net request aid m0 of
               (Inr v, m') \<Rightarrow> (Inr v, m')
             | (Inl e, m') \<Rightarrow>
                 (Inl (HTTPException 500 (''Analysis failed: '' @ str_exception e)),
                  inc_requests (req_analysis_type request) ''error'' m'));
          m2 = m1\<lparr> active_analyses := active_analyses m1 - 1 \<rparr>;
          m3 = m2\<lparr> analysis_duration := analysis_duration m2 @ [elapsed_seconds w] \<rparr>
      in (r, m3))"

section \<open>Notions used to state the properties\<close>

text \<open>
  A safe identifier: a letter or an underscore, followed by letters, digits and
  underscores.
\<close>

definition ident_start :: "char \<Rightarrow> bool" where
  "ident_start c =
     (let n = (of_char c :: nat) in (97 \<le> n \<and> n \<le> 122) \<or> (65 \<le> n \<and> n \<le> 90) \<or> n = 95)"

definition ident_char :: "char \<Rightarrow> bool" where
  "ident_char c = (ident_start c \<or> (let n = (of_char c :: nat) in 48 \<le> n \<and> n \<le> 57))"

fun safe_identifier :: "string \<Rightarrow> bool" where
  "safe_identifier [] = False"
| "safe_identifier (c # cs) = (ident_start c \<and> list_all ident_char cs)"

text \<open>The lines of a text (\<open>str.split('\n')\<close>).\<close>

fun split_lines :: "string \<Rightarrow> string list" where
  "split_lines [] = [[]]"
| "split_lines (c # cs) =
     (if c = CHR 0x0A then [] # split_lines cs
      else (case split_lines cs of l # ls \<Rightarrow> (c # l) # ls | [] \<Rightarrow> [[c]]))"

text \<open>The filenames of the four artifact kinds.\<close>

definition artifact_filenames :: "string list" where
  "artifact_filenames = [''policy.rego'', ''specification.tla'', ''test_suite.py'', ''documentation.md'']"

text \<open>What the loop stores for a kind, given the prompt of that kind.\<close>

definition stored :: "network \<Rightarrow> string \<Rightarrow> string \<Rightarrow> string \<Rightarrow> json" where
  "stored net lsu f p =
     (case provider_call net p of Inr c \<Rightarrow> c | Inl e \<Rightarrow> JStr (get_template_content f lsu))"

text \<open>The number of provider calls of a request that end in success.\<close>

definition successes :: "network \<Rightarrow> string \<Rightarrow> nat" where
  "successes net lsu = length (filter (\<lambda>(f, p). isl (provider_call net p) = False) (prompts lsu))"

definition failures :: "network \<Rightarrow> string \<Rightarrow> nat" where
  "failures net lsu = length (filter (\<lambda>(f, p). isl (provider_call net p)) (prompts lsu))"

section \<open>Sample inputs\<close>

definition nvidia_engine :: engine where
  "nvidia_engine = \<lparr> nvidia_api_key = Some ''nvapi-key'', groq_api_key = None,
     opa_endpoint = ''http://opa-service:8181'' \<rparr>"

definition plain_engine :: engine where
  "plain_engine = \<lparr> nvidia_api_key = None, groq_api_key = None,
     opa_endpoint = ''http://opa-service:8181'' \<rparr>"

text \<open>An engine with the GROQ credential only.\<close>

definition groq_engine :: engine where
  "groq_engine = \<lparr> nvidia_api_key = None, groq_api_key = Some ''gsk-key'',
     opa_endpoint = ''http://opa-service:8181'' \<rparr>"

definition zero_metrics :: metrics where
  "zero_metrics = \<lparr> analysis_requests_total = (\<lambda>l. 0), analysis_duration = [],
     ai_provider_requests = (\<lambda>l. 0), coherence_score_gauge = Map.empty, active_analyses = 0 \<rparr>"

definition completion :: "string \<Rightarrow> json" where
  "completion s = JObj [(''choices'', JArr [JObj [(''message'', JObj [(''content'', JStr s)])]])]"

text \<open>A provider that answers 500 to the Rego prompt and 200 to every other prompt.\<close>

definition flaky_network :: network where
  "flaky_network = \<lparr> session_opens = True,
     post = (\<lambda>p. if p = ''Generate a complete Rego policy for: x'' then Response 500 None
                  else Response 200 (Some (completion ''generated''))) \<rparr>"

text \<open>A network on which the client session cannot be entered.\<close>

definition closed_network :: network where
  "closed_network = \<lparr> session_opens = False, post = (\<lambda>p. Post_raises) \<rparr>"

text \<open>A provider that answers the TLA+ prompt as \<open>flaky_network\<close> does and no other.\<close>

definition tla_only_network :: network where
  "tla_only_network = \<lparr> session_opens = True,
     post = (\<lambda>p. if p = ''Create a TLA+ specification for: x''
                  then Response 200 (Some (completion ''generated'')) else Post_raises) \<rparr>"

text \<open>
  A world whose draws are all 0.4: every outcome is 1, every confidence 0.8, the score
  0.8, rendered \<open>0.80\<close>.
\<close>

definition sample_world :: world where
  "sample_world = \<lparr> time_now = 1700000000, hash_lsu = 42, elapsed_ms = 5, elapsed_seconds = 0.005,
     utcnow = (\<lambda>n. ''2024-01-15T10:00:00''), rnd = (\<lambda>n. 0.4), format_2f = (\<lambda>x. ''0.80'') \<rparr>"

definition sample_request :: QECAnalysisRequest where
  "sample_request = \<lparr> req_lsu = ''x'', req_analysis_type = ''security'',
     req_ai_provider_preference = None, req_integration_mode = ''opa'', req_metadata = None \<rparr>"

definition check :: "int \<Rightarrow> real \<Rightarrow> stabilizer_result" where
  "check oc cf = \<lparr> name = ''syntax_validation'', outcome = oc, confidence = cf, weight = 0.8,
     description = ''Enhanced syntax validation check'' \<rparr>"

text \<open>An analysis result whose certificate has the given status and score.\<close>

definition result_with :: "string \<Rightarrow> real \<Rightarrow> analysis_result" where
  "result_with st score =
     \<lparr> payload = \<lparr> artifact_id = ''artifact-a'', artifact_type = ''rego_policy'', artifact_body = [],
         payload_lsu_id = ''a'', representations = [],
         payload_metadata = \<lparr> creation_timestamp = [], processing_duration_ms = 0,
           version = ''v8.2.0-production'', ai_mode = ''enhanced-analysis'' \<rparr> \<rparr>,
       certificate_of_semantic_integrity =
         (make_certificate sample_world ''a'' [] score)\<lparr> status := st \<rparr>,
       signature = \<lparr> key_id = ''acgs-pgp-enhanced-key'', algorithm = ''ECDSA-SHA256'',
         signature_value = ''sig-a'', signature_timestamp = [] \<rparr>,
       ai_provider_used = ''simulation'' \<rparr>"

text \<open>A response with the given compliance status.\<close>

definition response_with :: "string \<Rightarrow> QECAnalysisResponse" where
  "response_with cs =
     \<lparr> analysis_id = ''a'', timestamp = [], lsu_input = ''x'', qec_result = result_with ''COHERENT'' 0.8,
       opa_policy = None, compliance_status = cs, audit_trail_id = ''audit-a'', recommendations = [],
       processing_time_ms = 0, response_ai_provider_used = ''simulation'', confidence_score = 0.8 \<rparr>"

section \<open>Coherence aggregation: properties\<close>





lemma coherence_score_of_nonempty:
  "rs \<noteq> [] \<Longrightarrow> \<exists>s. coherence_score_of rs = Inr s"
  by (simp add: coherence_score_of_def py_truediv_def)

lemma run_stabilizer_checks_nonempty: "run_stabilizer_checks r \<noteq> []"
  by (simp add: run_stabilizer_checks_def stabilizers_def Let_def)

lemma zero_score: "coherence_score_of [check 1 0.5, check (- 1) 0.5] = Inr 0"
  by (simp add: coherence_score_of_def py_truediv_def py_sum_def check_def)

section \<open>Certificate status\<close>

text \<open>
  C5. The status of a certificate is \<open>COHERENT\<close> exactly when its coherence score is
  positive and \<open>INCOHERENT\<close> exactly when it is not, for every score given to the
  certificate and for the certificate of every analysis result the synthesizer returns.
\<close>

theorem status_coherent_iff_positive:
  "(status (make_certificate w aid rs s) = ''COHERENT'' \<longleftrightarrow> 0 < s)
   \<and> (status (make_certificate w aid rs s) = ''INCOHERENT'' \<longleftrightarrow> \<not> 0 < s)
   \<and> (rs \<noteq> [] \<longrightarrow>
        (\<exists>qr. synthesize self w lsu aid reps rs = Inr qr
           \<and> coherence_score_of rs = Inr (coherence_score (certificate_of_semantic_integrity qr))
           \<and> (status (certificate_of_semantic_integrity qr) = ''COHERENT''
                \<longleftrightarrow> 0 < coherence_score (certificate_of_semantic_integrity qr))
           \<and> (status (certificate_of_semantic_integrity qr) = ''INCOHERENT''
                \<longleftrightarrow> \<not> 0 < coherence_score (certificate_of_semantic_integrity qr))))"
proof -
  have a: "status (make_certificate w aid rs s) = ''COHERENT'' \<longleftrightarrow> 0 < s"
    by (simp add: make_certificate_def)
  have b: "status (make_certificate w aid rs s) = ''INCOHERENT'' \<longleftrightarrow> \<not> 0 < s"
    by (simp add: make_certificate_def)
  have c: "\<exists>qr. synthesize self w lsu aid reps rs = Inr qr
           \<and> coherence_score_of rs = Inr (coherence_score (certificate_of_semantic_integrity qr))
           \<and> (status (certificate_of_semantic_integrity qr) = ''COHERENT''
                \<longleftrightarrow> 0 < coherence_score (certificate_of_semantic_integrity qr))
           \<and> (status (certificate_of_semantic_integrity qr) = ''INCOHERENT''
                \<longleftrightarrow> \<not> 0 < coherence_score (certificate_of_semantic_integrity qr))"
    if "rs \<noteq> []"
  proof -
    from that obtain t where t: "coherence_score_of rs = Inr t"
      using coherence_score_of_nonempty by blast
    show ?thesis
      by (simp add: synthesize_def t Let_def make_certificate_def)
  qed
  from a b c show ?thesis by blast
qed

theorem status_coherent_iff_positive_witness:
  "status (make_certificate sample_world ''a'' [] 0) = ''INCOHERENT''
   \<and> [check 1 0.5, check (- 1) 0.5] \<noteq> []
   \<and> (\<exists>qr. synthesize plain_engine sample_world ''x'' ''a'' [] [check 1 0.5, check (- 1) 0.5] = Inr qr
         \<and> coherence_score (certificate_of_semantic_integrity qr) = 0
         \<and> status (certificate_of_semantic_integrity qr) = ''INCOHERENT'')"
proof -
  let ?rs = "[check 1 0.5, check (- 1) 0.5]"
  have ne: "?rs \<noteq> []" by simp
  have first: "status (make_certificate sample_world ''a'' [] 0) = ''INCOHERENT''"
    using status_coherent_iff_positive [of sample_world "''a''" "[]" 0] by simp
  from ne status_coherent_iff_positive [of sample_world "''a''" ?rs 0 plain_engine "''x''" "[]"]
  obtain qr where qr: "synthesize plain_engine sample_world ''x'' ''a'' [] ?rs = Inr qr"
      "coherence_score_of ?rs = Inr (coherence_score (certificate_of_semantic_integrity qr))"
      "status (certificate_of_semantic_integrity qr) = ''INCOHERENT''
         \<longleftrightarrow> \<not> 0 < coherence_score (certificate_of_semantic_integrity qr)"
    by blast
  from qr(2) [unfolded zero_score]
  have z: "coherence_score (certificate_of_semantic_integrity qr) = 0"
    by simp
  with qr(3) have "status (certificate_of_semantic_integrity qr) = ''INCOHERENT''" by simp
  with first ne qr(1) z show ?thesis by blast
qed

section \<open>Compliance classification\<close>

lemma result_with_certificate:
  "status (certificate_of_semantic_integrity (result_with st s)) = st"
  "coherence_score (certificate_of_semantic_integrity (result_with st s)) = s"
  by (simp_all add: result_with_def make_certificate_def)

text \<open>
  C3. The classification is \<open>COMPLIANT\<close> when the status is \<open>COHERENT\<close> and the score
  is at least 0.8; failing that, \<open>NON_COMPLIANT\<close> when the status is \<open>INCOHERENT\<close> or
  the score is below 0.5; failing both, \<open>REVIEW_REQUIRED\<close>. So \<open>INCOHERENT\<close> gives
  \<open>NON_COMPLIANT\<close> whatever the score, and \<open>COHERENT\<close> with a score from 0.5 up to, but
  not including, 0.8 gives \<open>REVIEW_REQUIRED\<close>.
\<close>

theorem compliance_precedence:
  "(status (certificate_of_semantic_integrity qr) = ''COHERENT''
      \<and> 0.8 \<le> coherence_score (certificate_of_semantic_integrity qr)
      \<longrightarrow> assess_compliance qr = ''COMPLIANT'')
   \<and> (\<not> (status (certificate_of_semantic_integrity qr) = ''COHERENT''
          \<and> 0.8 \<le> coherence_score (certificate_of_semantic_integrity qr))
      \<and> (status (certificate_of_semantic_integrity qr) = ''INCOHERENT''
          \<or> coherence_score (certificate_of_semantic_integrity qr) < 0.5)
      \<longrightarrow> assess_compliance qr = ''NON_COMPLIANT'')
   \<and> (\<not> (status (certificate_of_semantic_integrity qr) = ''COHERENT''
          \<and> 0.8 \<le> coherence_score (certificate_of_semantic_integrity qr))
      \<and> \<not> (status (certificate_of_semantic_integrity qr) = ''INCOHERENT''
          \<or> coherence_score (certificate_of_semantic_integrity qr) < 0.5)
      \<longrightarrow> assess_compliance qr = ''REVIEW_REQUIRED'')
   \<and> (status (certificate_of_semantic_integrity qr) = ''INCOHERENT''
      \<longrightarrow> assess_compliance qr = ''NON_COMPLIANT'')
   \<and> (status (certificate_of_semantic_integrity qr) = ''COHERENT''
      \<and> 0.5 \<le> coherence_score (certificate_of_semantic_integrity qr)
      \<and> coherence_score (certificate_of_semantic_integrity qr) < 0.8
      \<longrightarrow> assess_compliance qr = ''REVIEW_REQUIRED'')"
  by (simp add: assess_compliance_def Let_def)

theorem compliance_precedence_witness:
  "assess_compliance (result_with ''COHERENT'' 0.85) = ''COMPLIANT''
   \<and> assess_compliance (result_with ''INCOHERENT'' 0.9) = ''NON_COMPLIANT''
   \<and> assess_compliance (result_with ''COHERENT'' 0.6) = ''REVIEW_REQUIRED''
   \<and> assess_compliance (result_with ''COHERENT'' 0.3) = ''NON_COMPLIANT''"
  using compliance_precedence [of "result_with ''COHERENT'' 0.85"]
    compliance_precedence [of "result_with ''INCOHERENT'' 0.9"]
    compliance_precedence [of "result_with ''COHERENT'' 0.6"]
    compliance_precedence [of "result_with ''COHERENT'' 0.3"]
  by (simp add: result_with_certificate)

section \<open>Audit entry\<close>

text \<open>
  C9. The decision of the audit entry is \<open>ALLOW\<close> exactly when the compliance status of
  the response is \<open>COMPLIANT\<close> and \<open>DENY\<close> for every other status; the list of
  violations is empty exactly when the decision is \<open>ALLOW\<close>, and otherwise it is the
  single entry \<open>QEC: \<close> followed by the compliance status.
\<close>

theorem audit_decision_and_violations:
  "(decision (record_audit_entry r) = ''ALLOW'' \<longleftrightarrow> compliance_status r = ''COMPLIANT'')
   \<and> (decision (record_audit_entry r) = ''DENY'' \<longleftrightarrow> compliance_status r \<noteq> ''COMPLIANT'')
   \<and> (violations (record_audit_entry r) = [] \<longleftrightarrow> decision (record_audit_entry r) = ''ALLOW'')
   \<and> (decision (record_audit_entry r) \<noteq> ''ALLOW'' \<longrightarrow>
        violations (record_audit_entry r) = [''QEC: '' @ compliance_status r])"
  by (simp add: record_audit_entry_def)

theorem audit_decision_and_violations_witness:
  "decision (record_audit_entry (response_with ''COMPLIANT'')) = ''ALLOW''
   \<and> violations (record_audit_entry (response_with ''COMPLIANT'')) = []
   \<and> decision (record_audit_entry (response_with ''NON_COMPLIANT'')) = ''DENY''
   \<and> violations (record_audit_entry (response_with ''NON_COMPLIANT'')) = [''QEC: NON_COMPLIANT'']
   \<and> decision (record_audit_entry (response_with ''REVIEW_REQUIRED'')) = ''DENY''
   \<and> violations (record_audit_entry (response_with ''REVIEW_REQUIRED'')) = [''QEC: REVIEW_REQUIRED'']"
  using audit_decision_and_violations [of "response_with ''COMPLIANT''"]
    audit_decision_and_violations [of "response_with ''NON_COMPLIANT''"]
    audit_decision_and_violations [of "response_with ''REVIEW_REQUIRED''"]
  by (simp add: response_with_def)

section \<open>The confidence a response reports\<close>

text \<open>
  C10. Every run of the orchestrator returns a response and builds its audit entry, and
  the \<open>confidence_score\<close> of the response, the \<open>ai_confidence\<close> of the entry and the
  \<open>coherence_score\<close> of the entry's metadata are all the coherence score of the
  certificate in the response, which is the aggregate of the run's stabilizer results.
\<close>

theorem confidence_is_coherence_score:
  "\<exists>response entry m'.
      analyze_governance_requirement self w net request m = (Inr (response, entry), m')
    \<and> entry = record_audit_entry response
    \<and> coherence_score_of (run_stabilizer_checks (rnd w))
        = Inr (coherence_score (certificate_of_semantic_integrity (qec_result response)))
    \<and> confidence_score response
        = coherence_score (certificate_of_semantic_integrity (qec_result response))
    \<and> ai_confidence entry
        = coherence_score (certificate_of_semantic_integrity (qec_result response))
    \<and> metadata_coherence_score (audit_metadata entry)
        = coherence_score (certificate_of_semantic_integrity (qec_result response))"
proof -
  obtain s where s: "coherence_score_of (run_stabilizer_checks (rnd w)) = Inr s"
    using coherence_score_of_nonempty [OF run_stabilizer_checks_nonempty] by blast
  obtain reps0 m0 where g0: "generate_representations self net (req_lsu request)
      (m\<lparr> active_analyses := active_analyses m + 1 \<rparr>) = (reps0, m0)"
    by fastforce
  show ?thesis
    by (simp add: analyze_governance_requirement_def analysis_body_def run_qec_analysis_def
        synthesize_def g0 s Let_def record_audit_entry_def make_certificate_def)
qed

section \<open>Representation generation: properties\<close>

lemma map_of_dict_set: "map_of (dict_set d k v) = (map_of d)(k \<mapsto> v)"
  by (induction d k v rule: dict_set.induct) (auto simp: fun_eq_iff)

lemma keys_dict_set:
  "map fst (dict_set d k v) = (if k \<in> fst ` set d then map fst d else map fst d @ [k])"
  by (induction d k v rule: dict_set.induct) auto

lemma ai_loop_lookup:
  "distinct (map fst ps) \<Longrightarrow>
   map_of (fst (ai_loop net lsu ps reps m)) f
     = (case map_of ps f of Some p \<Rightarrow> Some (stored net lsu f p) | None \<Rightarrow> map_of reps f)"
proof (induction ps arbitrary: reps m)
  case Nil
  then show ?case by simp
next
  case (Cons a ps)
  obtain g q where a: "a = (g, q)" by (cases a)
  from Cons.prems a have d: "distinct (map fst ps)" and g: "map_of ps g = None"
    by (auto simp: map_of_eq_None_iff)
  show ?case
    using g by (cases "provider_call net q")
      (auto simp: a Cons.IH [OF d] map_of_dict_set stored_def split: option.splits)
qed

lemma ai_loop_keys:
  "distinct (map fst ps) \<Longrightarrow> fst ` set ps \<inter> fst ` set reps = {} \<Longrightarrow>
   map fst (fst (ai_loop net lsu ps reps m)) = map fst reps @ map fst ps"
proof (induction ps arbitrary: reps m)
  case Nil
  then show ?case by simp
next
  case (Cons a ps)
  obtain g q where a: "a = (g, q)" by (cases a)
  from Cons.prems a have d: "distinct (map fst ps)" and g: "g \<notin> fst ` set ps" "g \<notin> fst ` set reps"
    and i: "fst ` set ps \<inter> fst ` set reps = {}"
    by auto
  have k: "map fst (dict_set reps g v) = map fst reps @ [g]" for v
    using g(2) by (simp add: keys_dict_set)
  have j: "fst ` set ps \<inter> fst ` set (dict_set reps g v) = {}" for v
  proof -
    have "fst ` set (dict_set reps g v) = set (map fst (dict_set reps g v))" by simp
    also have "\<dots> = insert g (fst ` set reps)" by (simp add: k)
    finally show ?thesis using i g(1) by auto
  qed
  show ?case
    by (cases "provider_call net q") (simp_all add: a Cons.IH [OF d j] k)
qed

lemma ai_loop_counts:
  "ai_provider_requests (snd (ai_loop net lsu ps reps m)) (''nvidia'', ''success'')
     = ai_provider_requests m (''nvidia'', ''success'')
       + length (filter (\<lambda>(f, p). isl (provider_call net p) = False) ps)
   \<and> ai_provider_requests (snd (ai_loop net lsu ps reps m)) (''nvidia'', ''error'')
     = ai_provider_requests m (''nvidia'', ''error'')
       + length (filter (\<lambda>(f, p). isl (provider_call net p)) ps)
   \<and> ai_provider_requests (snd (ai_loop net lsu ps reps m)) (''nvidia'', ''attempt'')
     = ai_provider_requests m (''nvidia'', ''attempt'')"
proof (induction ps arbitrary: reps m)
  case Nil
  then show ?case by simp
next
  case (Cons a ps)
  obtain g q where a: "a = (g, q)" by (cases a)
  show ?case
    by (cases "provider_call net q") (simp_all add: a Cons.IH inc_provider_def inc_def)
qed

lemma prompts_keys: "map fst (prompts lsu) = artifact_filenames"
  by (simp add: prompts_def artifact_filenames_def)

lemma template_keys: "map fst (template_generate_representations lsu) = artifact_filenames"
  by (simp add: template_generate_representations_def artifact_filenames_def)

lemma distinct_filenames: "distinct artifact_filenames"
  by (simp add: artifact_filenames_def)

lemma ai_reps:
  "truthy (nvidia_api_key self) \<Longrightarrow> session_opens net \<Longrightarrow>
   fst (generate_representations self net lsu m)
     = fst (ai_loop net lsu (prompts lsu) [] (inc_provider ''attempt'' m))"
  by (simp add: generate_representations_def ai_generate_representations_def Let_def
      split: prod.splits)

lemma ai_metrics:
  "truthy (nvidia_api_key self) \<Longrightarrow> session_opens net \<Longrightarrow>
   snd (generate_representations self net lsu m)
     = snd (ai_loop net lsu (prompts lsu) [] (inc_provider ''attempt'' m))"
  by (simp add: generate_representations_def ai_generate_representations_def Let_def
      split: prod.splits)

lemma closed_session:
  "truthy (nvidia_api_key self) \<Longrightarrow> \<not> session_opens net \<Longrightarrow>
   generate_representations self net lsu m
     = (template_generate_representations lsu, inc_provider ''attempt'' m)"
  by (simp add: generate_representations_def ai_generate_representations_def Let_def)

lemma no_key:
  "\<not> truthy (nvidia_api_key self) \<Longrightarrow>
   generate_representations self net lsu m = (template_generate_representations lsu, m)"
  by (simp add: generate_representations_def)

lemma keys_always: "map fst (fst (generate_representations self net lsu m)) = artifact_filenames"
proof (cases "truthy (nvidia_api_key self)")
  case False
  then show ?thesis by (simp add: no_key template_keys)
next
  case True
  show ?thesis
  proof (cases "session_opens net")
    case False
    with True show ?thesis by (simp add: closed_session template_keys)
  next
    case op: True
    have "distinct (map fst (prompts lsu))" by (simp add: prompts_keys distinct_filenames)
    then have "map fst (fst (ai_loop net lsu (prompts lsu) [] (inc_provider ''attempt'' m)))
        = map fst (prompts lsu)"
      using ai_loop_keys [of "prompts lsu" "[]"] by simp
    with True op show ?thesis by (simp add: ai_reps prompts_keys)
  qed
qed

lemma ai_value:
  assumes k: "truthy (nvidia_api_key self)" and s: "session_opens net"
    and fp: "(f, p) \<in> set (prompts lsu)"
  shows "map_of (fst (generate_representations self net lsu m)) f = Some (stored net lsu f p)"
proof -
  have d: "distinct (map fst (prompts lsu))" by (simp add: prompts_keys distinct_filenames)
  with fp have "map_of (prompts lsu) f = Some p" by simp
  with ai_loop_lookup [OF d, of net lsu "[]" "inc_provider ''attempt'' m" f]
  show ?thesis by (simp add: ai_reps [OF k s])
qed

lemma completion_content: "extract_content (completion s) = Inr (JStr s)"
  by (simp add: extract_content_def completion_def)

lemma flaky_calls:
  "provider_call flaky_network ''Generate a complete Rego policy for: x'' = Inl (ApiError 500)"
  "provider_call flaky_network ''Create a TLA+ specification for: x'' = Inr (JStr ''generated'')"
  "provider_call flaky_network ''Write comprehensive Python tests for: x'' = Inr (JStr ''generated'')"
  "provider_call flaky_network ''Create documentation for: x'' = Inr (JStr ''generated'')"
  by (simp_all add: provider_call_def flaky_network_def completion_content)

text \<open>
  C2. Representation generation returns, for every engine, network and LSU, a dictionary
  whose keys are exactly the four artifact filenames. With a credential and an open
  session, the value of each kind is the content of that kind's own provider call when
  the call succeeds and the template content of that kind when it fails; so two networks
  that answer the prompt of a kind alike give that kind the same value, whatever they
  answer to the other prompts.
\<close>

theorem representations_total_and_isolated:
  "map fst (fst (generate_representations self net lsu m)) = artifact_filenames
   \<and> (truthy (nvidia_api_key self) \<and> session_opens net \<longrightarrow>
        (\<forall>(f, p) \<in> set (prompts lsu).
           map_of (fst (generate_representations self net lsu m)) f
             = Some (case provider_call net p of
                       Inr content \<Rightarrow> content
                     | Inl e \<Rightarrow> JStr (get_template_content f lsu))))
   \<and> (truthy (nvidia_api_key self) \<and> session_opens net \<and> session_opens net' \<longrightarrow>
        (\<forall>(f, p) \<in> set (prompts lsu).
           post net' p = post net p \<longrightarrow>
           map_of (fst (generate_representations self net' lsu m')) f
             = map_of (fst (generate_representations self net lsu m)) f))"
proof -
  have one: "map_of (fst (generate_representations self net lsu m)) f
          = Some (case provider_call net p of
                    Inr content \<Rightarrow> content | Inl e \<Rightarrow> JStr (get_template_content f lsu))"
    if "truthy (nvidia_api_key self)" "session_opens net" "(f, p) \<in> set (prompts lsu)"
    for f p
    using ai_value [OF that] by (simp add: stored_def)
  have two: "map_of (fst (generate_representations self net' lsu m')) f
          = map_of (fst (generate_representations self net lsu m)) f"
    if "truthy (nvidia_api_key self)" "session_opens net" "session_opens net'"
      "(f, p) \<in> set (prompts lsu)" "post net' p = post net p"
    for f p
    using ai_value [OF that(1) that(2) that(4)] ai_value [OF that(1) that(3) that(4)] that(5)
    by (simp add: stored_def provider_call_def)
  from keys_always one two show ?thesis by blast
qed

theorem representations_total_and_isolated_witness:
  "truthy (nvidia_api_key nvidia_engine) \<and> session_opens flaky_network
   \<and> session_opens tla_only_network
   \<and> map fst (fst (generate_representations nvidia_engine flaky_network ''x'' zero_metrics))
       = [''policy.rego'', ''specification.tla'', ''test_suite.py'', ''documentation.md'']
   \<and> map_of (fst (generate_representations nvidia_engine flaky_network ''x'' zero_metrics)) ''policy.rego''
       = Some (JStr (get_template_content ''policy.rego'' ''x''))
   \<and> map_of (fst (generate_representations nvidia_engine flaky_network ''x'' zero_metrics)) ''specification.tla''
       = Some (JStr ''generated'')
   \<and> map_of (fst (generate_representations nvidia_engine flaky_network ''x'' zero_metrics)) ''test_suite.py''
       = Some (JStr ''generated'')
   \<and> map_of (fst (generate_representations nvidia_engine flaky_network ''x'' zero_metrics)) ''documentation.md''
       = Some (JStr ''generated'')
   \<and> map_of (fst (generate_representations nvidia_engine tla_only_network ''x'' zero_metrics)) ''specification.tla''
       = Some (JStr ''generated'')"
proof -
  have k: "truthy (nvidia_api_key nvidia_engine)" by (simp add: nvidia_engine_def)
  have s: "session_opens flaky_network" by (simp add: flaky_network_def)
  have s': "session_opens tla_only_network" by (simp add: tla_only_network_def)
  note t = representations_total_and_isolated
    [of nvidia_engine flaky_network "''x''" zero_metrics tla_only_network zero_metrics]
  from t have keys: "map fst (fst (generate_representations nvidia_engine flaky_network ''x'' zero_metrics))
      = artifact_filenames"
    by blast
  from t k s have "\<forall>(f, p) \<in> set (prompts ''x'').
      map_of (fst (generate_representations nvidia_engine flaky_network ''x'' zero_metrics)) f
        = Some (case provider_call flaky_network p of
                  Inr content \<Rightarrow> content | Inl e \<Rightarrow> JStr (get_template_content f ''x''))"
    by blast
  then have each:
    "map_of (fst (generate_representations nvidia_engine flaky_network ''x'' zero_metrics)) ''policy.rego''
       = Some (JStr (get_template_content ''policy.rego'' ''x''))"
    "map_of (fst (generate_representations nvidia_engine flaky_network ''x'' zero_metrics)) ''specification.tla''
       = Some (JStr ''generated'')"
    "map_of (fst (generate_representations nvidia_engine flaky_network ''x'' zero_metrics)) ''test_suite.py''
       = Some (JStr ''generated'')"
    "map_of (fst (generate_representations nvidia_engine flaky_network ''x'' zero_metrics)) ''documentation.md''
       = Some (JStr ''generated'')"
    by (simp_all add: prompts_def flaky_calls)
  from t k s s' have "\<forall>(f, p) \<in> set (prompts ''x'').
      post tla_only_network p = post flaky_network p \<longrightarrow>
      map_of (fst (generate_representations nvidia_engine tla_only_network ''x'' zero_metrics)) f
        = map_of (fst (generate_representations nvidia_engine flaky_network ''x'' zero_metrics)) f"
    by blast
  then have "map_of (fst (generate_representations nvidia_engine tla_only_network ''x'' zero_metrics))
        ''specification.tla''
      = map_of (fst (generate_representations nvidia_engine flaky_network ''x'' zero_metrics))
        ''specification.tla''"
    by (simp add: prompts_def tla_only_network_def flaky_network_def)
  with each(2) have other:
    "map_of (fst (generate_representations nvidia_engine tla_only_network ''x'' zero_metrics))
        ''specification.tla'' = Some (JStr ''generated'')"
    by simp
  from keys have "map fst (fst (generate_representations nvidia_engine flaky_network ''x'' zero_metrics))
      = [''policy.rego'', ''specification.tla'', ''test_suite.py'', ''documentation.md'']"
    by (simp add: artifact_filenames_def)
  with k s s' each other show ?thesis by blast
qed

text \<open>
  C6. Without an NVIDIA credential (unset or empty) the generator returns the template
  dictionary and leaves the metrics as they were: for each of the four artifact
  filenames the value is exactly the template content for that filename and the LSU.
\<close>

theorem no_credential_gives_templates:
  "\<not> truthy (nvidia_api_key self) \<Longrightarrow>
     generate_representations self net lsu m = (template_generate_representations lsu, m)
   \<and> map fst (fst (generate_representations self net lsu m)) = artifact_filenames
   \<and> (\<forall>f \<in> set artifact_filenames.
        map_of (fst (generate_representations self net lsu m)) f
          = Some (JStr (get_template_content f lsu)))"
  by (simp add: no_key template_keys)
    (simp add: template_generate_representations_def artifact_filenames_def)

theorem no_credential_gives_templates_witness:
  "\<not> truthy (nvidia_api_key plain_engine)
   \<and> generate_representations plain_engine flaky_network ''x'' zero_metrics
       = (template_generate_representations ''x'', zero_metrics)
   \<and> map_of (fst (generate_representations plain_engine flaky_network ''x'' zero_metrics)) ''policy.rego''
       = Some (JStr (get_template_content ''policy.rego'' ''x''))
   \<and> map_of (fst (generate_representations plain_engine flaky_network ''x'' zero_metrics)) ''specification.tla''
       = Some (JStr (get_template_content ''specification.tla'' ''x''))
   \<and> map_of (fst (generate_representations plain_engine flaky_network ''x'' zero_metrics)) ''test_suite.py''
       = Some (JStr (get_template_content ''test_suite.py'' ''x''))
   \<and> map_of (fst (generate_representations plain_engine flaky_network ''x'' zero_metrics)) ''documentation.md''
       = Some (JStr (get_template_content ''documentation.md'' ''x''))"
proof -
  have k: "\<not> truthy (nvidia_api_key plain_engine)" by (simp add: plain_engine_def)
  note t = no_credential_gives_templates [OF k, of flaky_network "''x''" zero_metrics]
  from t have whole: "generate_representations plain_engine flaky_network ''x'' zero_metrics
      = (template_generate_representations ''x'', zero_metrics)"
    by blast
  from t have "\<forall>f \<in> set artifact_filenames.
      map_of (fst (generate_representations plain_engine flaky_network ''x'' zero_metrics)) f
        = Some (JStr (get_template_content f ''x''))"
    by blast
  then have each:
    "map_of (fst (generate_representations plain_engine flaky_network ''x'' zero_metrics)) ''policy.rego''
       = Some (JStr (get_template_content ''policy.rego'' ''x''))"
    "map_of (fst (generate_representations plain_engine flaky_network ''x'' zero_metrics)) ''specification.tla''
       = Some (JStr (get_template_content ''specification.tla'' ''x''))"
    "map_of (fst (generate_representations plain_engine flaky_network ''x'' zero_metrics)) ''test_suite.py''
       = Some (JStr (get_template_content ''test_suite.py'' ''x''))"
    "map_of (fst (generate_representations plain_engine flaky_network ''x'' zero_metrics)) ''documentation.md''
       = Some (JStr (get_template_content ''documentation.md'' ''x''))"
    by (simp_all add: artifact_filenames_def)
  from k whole each show ?thesis by blast
qed

section \<open>Provider counters\<close>

lemma calls_total: "successes net lsu + failures net lsu = length (prompts lsu)"
proof -
  have "successes net lsu
      = length (filter (\<lambda>x. \<not> (case x of (f, p) \<Rightarrow> isl (provider_call net p))) (prompts lsu))"
    unfolding successes_def by (rule arg_cong [where f = length], rule filter_cong) auto
  then show ?thesis
    unfolding failures_def
    using sum_length_filter_compl [of "\<lambda>(f, p). isl (provider_call net p)" "prompts lsu"]
    by simp
qed

text \<open>
  C7 (as the code has it). The counters of provider requests move only when the NVIDIA
  credential is configured. Then a request increments the attempt counter exactly once,
  before the loop over the kinds; when the session opens, each of the four provider
  calls increments exactly one outcome counter, \<open>success\<close> when the call succeeds and
  \<open>error\<close> when it fails; when the session does not open, no outcome is counted.
  Without the NVIDIA credential, also when the GROQ credential is configured, no
  counter of provider requests moves.
\<close>

theorem provider_counters:
  "(truthy (nvidia_api_key self) \<longrightarrow>
      ai_provider_requests (snd (generate_representations self net lsu m)) (''nvidia'', ''attempt'')
        = ai_provider_requests m (''nvidia'', ''attempt'') + 1
    \<and> (session_opens net \<longrightarrow>
         ai_provider_requests (snd (generate_representations self net lsu m)) (''nvidia'', ''success'')
           = ai_provider_requests m (''nvidia'', ''success'') + successes net lsu
       \<and> ai_provider_requests (snd (generate_representations self net lsu m)) (''nvidia'', ''error'')
           = ai_provider_requests m (''nvidia'', ''error'') + failures net lsu
       \<and> successes net lsu + failures net lsu = 4)
    \<and> (\<not> session_opens net \<longrightarrow>
         ai_provider_requests (snd (generate_representations self net lsu m)) (''nvidia'', ''success'')
           = ai_provider_requests m (''nvidia'', ''success'')
       \<and> ai_provider_requests (snd (generate_representations self net lsu m)) (''nvidia'', ''error'')
           = ai_provider_requests m (''nvidia'', ''error'')))
   \<and> (\<not> truthy (nvidia_api_key self) \<longrightarrow>
        ai_provider_requests (snd (generate_representations self net lsu m)) = ai_provider_requests m)"
proof (cases "truthy (nvidia_api_key self)")
  case False
  then show ?thesis by (simp add: no_key)
next
  case k: True
  show ?thesis
  proof (cases "session_opens net")
    case False
    with k show ?thesis
      by (simp add: closed_session inc_provider_def inc_def)
  next
    case True
    have four: "successes net lsu + failures net lsu = 4"
      by (simp add: calls_total) (simp add: prompts_def)
    from ai_loop_counts [of net lsu "prompts lsu" "[]" "inc_provider ''attempt'' m"] four True k
    show ?thesis
      by (simp add: ai_metrics [OF k True] successes_def failures_def inc_provider_def inc_def)
  qed
qed

theorem provider_counters_witness:
  "truthy (nvidia_api_key nvidia_engine) \<and> session_opens flaky_network
   \<and> \<not> session_opens closed_network \<and> \<not> truthy (nvidia_api_key groq_engine)
   \<and> truthy (groq_api_key groq_engine)
   \<and> ai_provider_requests (snd (generate_representations nvidia_engine flaky_network ''x'' zero_metrics))
       (''nvidia'', ''attempt'') = 1
   \<and> ai_provider_requests (snd (generate_representations nvidia_engine flaky_network ''x'' zero_metrics))
       (''nvidia'', ''success'') = 3
   \<and> ai_provider_requests (snd (generate_representations nvidia_engine flaky_network ''x'' zero_metrics))
       (''nvidia'', ''error'') = 1
   \<and> ai_provider_requests (snd (generate_representations nvidia_engine closed_network ''x'' zero_metrics))
       (''nvidia'', ''attempt'') = 1
   \<and> ai_provider_requests (snd (generate_representations nvidia_engine closed_network ''x'' zero_metrics))
       (''nvidia'', ''success'') = 0
   \<and> ai_provider_requests (snd (generate_representations nvidia_engine closed_network ''x'' zero_metrics))
       (''nvidia'', ''error'') = 0
   \<and> ai_provider_requests (snd (generate_representations groq_engine flaky_network ''x'' zero_metrics))
       = ai_provider_requests zero_metrics"
proof -
  have k: "truthy (nvidia_api_key nvidia_engine)" by (simp add: nvidia_engine_def)
  have s: "session_opens flaky_network" by (simp add: flaky_network_def)
  have c: "\<not> session_opens closed_network" by (simp add: closed_network_def)
  have g: "\<not> truthy (nvidia_api_key groq_engine)" "truthy (groq_api_key groq_engine)"
    by (simp_all add: groq_engine_def)
  have n: "successes flaky_network ''x'' = 3" "failures flaky_network ''x'' = 1"
    by (simp_all add: successes_def failures_def prompts_def flaky_calls)
  have z: "ai_provider_requests zero_metrics l = 0" for l
    by (simp add: zero_metrics_def)
  from provider_counters [of nvidia_engine flaky_network "''x''" zero_metrics] k s n
  have opened:
    "ai_provider_requests (snd (generate_representations nvidia_engine flaky_network ''x'' zero_metrics))
       (''nvidia'', ''attempt'') = 1"
    "ai_provider_requests (snd (generate_representations nvidia_engine flaky_network ''x'' zero_metrics))
       (''nvidia'', ''success'') = 3"
    "ai_provider_requests (snd (generate_representations nvidia_engine flaky_network ''x'' zero_metrics))
       (''nvidia'', ''error'') = 1"
    by (simp_all add: z)
  from provider_counters [of nvidia_engine closed_network "''x''" zero_metrics] k c
  have closed:
    "ai_provider_requests (snd (generate_representations nvidia_engine closed_network ''x'' zero_metrics))
       (''nvidia'', ''attempt'') = 1"
    "ai_provider_requests (snd (generate_representations nvidia_engine closed_network ''x'' zero_metrics))
       (''nvidia'', ''success'') = 0"
    "ai_provider_requests (snd (generate_representations nvidia_engine closed_network ''x'' zero_metrics))
       (''nvidia'', ''error'') = 0"
    by (simp_all add: z)
  from provider_counters [of groq_engine flaky_network "''x''" zero_metrics] g(1)
  have none:
    "ai_provider_requests (snd (generate_representations groq_engine flaky_network ''x'' zero_metrics))
       = ai_provider_requests zero_metrics"
    by blast
  from k s c g opened closed none show ?thesis by blast
qed

text \<open>
  C7 as stated fails: a request that makes four provider calls raises the attempt
  counter by one, not by four.
\<close>

theorem attempt_counter_not_per_call:
  "length (prompts ''x'') = 4
   \<and> ai_provider_requests (snd (generate_representations nvidia_engine flaky_network ''x'' zero_metrics))
         (''nvidia'', ''attempt'') = 1
   \<and> \<not> (ai_provider_requests (snd (generate_representations nvidia_engine flaky_network ''x'' zero_metrics))
         (''nvidia'', ''attempt'')
        = ai_provider_requests zero_metrics (''nvidia'', ''attempt'') + length (prompts ''x''))"
proof -
  have k: "truthy (nvidia_api_key nvidia_engine)" by (simp add: nvidia_engine_def)
  have s: "session_opens flaky_network" by (simp add: flaky_network_def)
  from ai_loop_counts [of flaky_network "''x''" "prompts ''x''" "[]" "inc_provider ''attempt'' zero_metrics"]
  have "ai_provider_requests (snd (generate_representations nvidia_engine flaky_network ''x'' zero_metrics))
         (''nvidia'', ''attempt'') = 1"
    by (simp add: ai_metrics [OF k s] inc_provider_def inc_def zero_metrics_def)
  then show ?thesis by (simp add: prompts_def zero_metrics_def)
qed

section \<open>Policy generation: properties\<close>

lemma sublist_skip: "sublist xs ys \<Longrightarrow> sublist xs (zs @ ys)"
  by (auto simp: sublist_def) (metis append.assoc)

lemma sublist_join_nl:
  "0 < i \<Longrightarrow> Suc i < length ls \<Longrightarrow> sublist (nl @ ls ! i @ nl) (join_nl ls)"
proof (induction ls arbitrary: i rule: join_nl.induct)
  case 1
  then show ?case by simp
next
  case (2 l)
  then show ?case by simp
next
  case (3 l l' ls)
  show ?case
  proof (cases "i = 1")
    case True
    with "3.prems" obtain x xs where ls: "ls = x # xs" by (cases ls) auto
    have "join_nl (l # l' # ls) = l @ (nl @ l' @ nl) @ join_nl ls"
      by (simp add: ls)
    then show ?thesis using True by (simp del: append_assoc join_nl.simps)
  next
    case False
    with "3.prems" obtain j where j: "i = Suc j" "0 < j" "Suc j < length (l' # ls)"
      by (cases i) auto
    from "3.IH" [OF j(2) j(3)] have "sublist (nl @ (l' # ls) ! j @ nl) (join_nl (l' # ls))" .
    then have "sublist (nl @ (l' # ls) ! j @ nl) ((l @ nl) @ join_nl (l' # ls))"
      by (rule sublist_skip)
    then show ?thesis using j(1) by simp
  qed
qed

lemma sublist_join_nl_at:
  "0 < i \<Longrightarrow> Suc i < length ls \<Longrightarrow> ls ! i = x \<Longrightarrow> sublist (nl @ x @ nl) (join_nl ls)"
  using sublist_join_nl by blast

lemma split_lines_plain: "CHR 0x0A \<notin> set l \<Longrightarrow> split_lines l = [l]"
  by (induction l) auto

lemma split_lines_append: "CHR 0x0A \<notin> set l \<Longrightarrow> split_lines (l @ nl @ r) = l # split_lines r"
  by (induction l) (auto simp: nl_def)

lemma split_lines_join_nl:
  "ls \<noteq> [] \<Longrightarrow> list_all (\<lambda>l. CHR 0x0A \<notin> set l) ls \<Longrightarrow> split_lines (join_nl ls) = ls"
  by (induction ls rule: join_nl.induct) (simp_all add: split_lines_plain split_lines_append)

text \<open>
  C8 (as the code has it). For every analysis-type text the policy generator returns a
  policy text, computed from its arguments alone, in which the analysis-type text
  stands as it was given, unsanitized: after \<open>package acgs.qec.\<close> on the package line,
  and before \<open>_specific_checks\<close> in the body of \<open>allow\<close> and at the head of the rule of
  that name.
\<close>

theorem analysis_type_embedded_verbatim:
  "sublist (nl @ (''package acgs.qec.'' @ atype) @ nl) (generate_opa_policy w qr atype)
   \<and> sublist (nl @ (''    '' @ atype @ ''_specific_checks'') @ nl) (generate_opa_policy w qr atype)
   \<and> sublist (nl @ (atype @ ''_specific_checks if {'') @ nl) (generate_opa_policy w qr atype)"
proof (intro conjI)
  show "sublist (nl @ (''package acgs.qec.'' @ atype) @ nl) (generate_opa_policy w qr atype)"
    unfolding generate_opa_policy_def Let_def
    by (rule sublist_join_nl_at [where i = 5]) simp_all
  show "sublist (nl @ (''    '' @ atype @ ''_specific_checks'') @ nl) (generate_opa_policy w qr atype)"
    unfolding generate_opa_policy_def Let_def
    by (rule sublist_join_nl_at [where i = 16]) simp_all
  show "sublist (nl @ (atype @ ''_specific_checks if {'') @ nl) (generate_opa_policy w qr atype)"
    unfolding generate_opa_policy_def Let_def
    by (rule sublist_join_nl_at [where i = 33]) simp_all
qed

text \<open>
  C8 as stated fails: for the analysis type \<open>a b\<close> the package line of the policy is
  \<open>package acgs.qec.a b\<close>, and no safe identifier follows \<open>package acgs.qec.\<close> there.
\<close>

theorem analysis_type_not_sanitized:
  "\<not> (\<exists>ident. safe_identifier ident
        \<and> split_lines (generate_opa_policy sample_world (result_with ''COHERENT'' 0.8) ''a b'') ! 5
            = ''package acgs.qec.'' @ ident)"
proof -
  have "split_lines (generate_opa_policy sample_world (result_with ''COHERENT'' 0.8) ''a b'') ! 5
          = ''package acgs.qec.'' @ ''a b''"
    unfolding generate_opa_policy_def Let_def
    by (subst split_lines_join_nl)
      (simp_all add: result_with_def make_certificate_def sample_world_def)
  moreover have "\<not> safe_identifier ''a b''"
    by (simp add: ident_char_def ident_start_def)
  ultimately show ?thesis by auto
qed

end
